theory Spec2Isabelle
  imports Complex_Main "HOL-Library.Multiset"
begin

section \<open>Nutrition planner: the calorie model\<close>

text \<open>
  A shallow embedding of \<^verbatim>\<open>nutrition_planner.py\<close>. Python numbers that the
  docstrings call \<^verbatim>\<open>float\<close> are the reals here: rounding, infinities and
  NaN are outside the model. Calories of the food catalog are Python \<^verbatim>\<open>int\<close>,
  hence \<^typ>\<open>int\<close>. Every operation of the source that can raise returns a sum,
  with the exception on the left.
\<close>

datatype py_error = ZeroDivisionError | IndexError | KeyError

subsection \<open>Python primitives used by the source\<close>

text \<open>
  \<^verbatim>\<open>str.lower()\<close>: the 26 capital letters A to Z go to their small letters and
  every other byte stays. Python also lowers capitals beyond ASCII; none of them becomes
  one of the letters of \<open>low\<close>, \<open>medium\<close> or \<open>high\<close>, so the lookup in the factor
  table finds the same entry.
\<close>

definition lower_char :: "char \<Rightarrow> char" where
  "lower_char c =
     (case map_of (zip ''ABCDEFGHIJKLMNOPQRSTUVWXYZ'' ''abcdefghijklmnopqrstuvwxyz'') c of
        Some d \<Rightarrow> d
      | None \<Rightarrow> c)"

definition lower :: "string \<Rightarrow> string" where
  "lower s = map lower_char s"

text \<open>\<^verbatim>\<open>d.get(k, default)\<close> on a dictionary.\<close>

definition dict_get :: "('k \<rightharpoonup> 'v) \<Rightarrow> 'k \<Rightarrow> 'v \<Rightarrow> 'v" where
  "dict_get d k dflt = (case d k of Some v \<Rightarrow> v | None \<Rightarrow> dflt)"

text \<open>\<^verbatim>\<open>max(a, b)\<close> of Python keeps the first argument unless the second is larger.\<close>

definition py_max :: "real \<Rightarrow> real \<Rightarrow> real" where
  "py_max a b = (if b > a then b else a)"

text \<open>\<^verbatim>\<open>a / b\<close> raises \<^verbatim>\<open>ZeroDivisionError\<close> when \<^verbatim>\<open>b\<close> is zero.\<close>

definition py_truediv :: "real \<Rightarrow> real \<Rightarrow> py_error + real" where
  "py_truediv a b = (if b = 0 then Inl ZeroDivisionError else Inr (a / b))"

subsection \<open>The activity factors and maintenance calories\<close>

definition factors :: "string \<rightharpoonup> real" where
  "factors = [''low'' \<mapsto> 12.0, ''medium'' \<mapsto> 14.0, ''high'' \<mapsto> 16.0]"

definition maintain_cals :: "real \<Rightarrow> string \<Rightarrow> real" where
  "maintain_cals weight_lb activity_level =
     (let factor = dict_get factors (lower activity_level) 14.0;
          maintain = weight_lb * factor
      in maintain)"

subsection \<open>Person\<close>

record Person =
  current_w :: real
  goal_w :: real
  timeline :: real
  activity :: string
  health_concern :: bool
  calorie_target :: real
  fiber_grams :: real
  sat_fat :: real

text \<open>
  \<^verbatim>\<open>Person.__init__\<close> with all seven arguments given. The last argument is
  the constructor's parameter \<^verbatim>\<open>sat_fat\<close>; the field of that name is computed
  from \<^verbatim>\<open>calorie_target\<close>.
\<close>

definition Person_init ::
  "real \<Rightarrow> real \<Rightarrow> real \<Rightarrow> string \<Rightarrow> bool \<Rightarrow> real \<Rightarrow> real \<Rightarrow> Person" where
  "Person_init cur goal weeks act hc ct sat_fat_arg =
     \<lparr> current_w = cur, goal_w = goal, timeline = weeks, activity = act,
       health_concern = hc, calorie_target = ct,
       fiber_grams = (ct / 1000) * 14,
       sat_fat = (ct * 0.07) / 9 \<rparr>"

text \<open>The call with the defaults of the signature:
  \<^verbatim>\<open>health_concern=False, calorie_target=2000, sat_fat=1\<close>.\<close>

definition Person_init_default :: "real \<Rightarrow> real \<Rightarrow> real \<Rightarrow> string \<Rightarrow> Person" where
  "Person_init_default cur goal weeks act = Person_init cur goal weeks act False 2000 1"

definition goal_type :: "Person \<Rightarrow> string" where
  "goal_type self =
     (if goal_w self < current_w self then ''lose''
      else if goal_w self > current_w self then ''gain''
      else ''maintain'')"

definition daily_calorie_target :: "Person \<Rightarrow> py_error + (real \<times> bool)" where
  "daily_calorie_target self =
     (let maintenance = maintain_cals (current_w self) (activity self);
          pounds_change = goal_w self - current_w self;
          total_calorie_shift = pounds_change * 3500;
          days = py_max (timeline self * 7) 1
      in case py_truediv total_calorie_shift days of
           Inl e \<Rightarrow> Inl e
         | Inr daily_adjustment \<Rightarrow>
             (let unhealthy = (\<bar>daily_adjustment\<bar> > 1000);
                  target = maintenance + daily_adjustment
              in Inr (target, unhealthy)))"

definition protein_grams :: "Person \<Rightarrow> real" where
  "protein_grams self =
     (let goal = goal_type self;
          multiplier = (if goal = ''lose'' then 1.0 else 0.8)
      in current_w self * multiplier)"

section \<open>Nutrition planner: the food database\<close>

text \<open>
  The two tables of \<^verbatim>\<open>FoodDatabase\<close> are dictionaries from a category to a list
  of pairs (name, calories). Iteration over a dictionary follows insertion order, so a
  table is an association list in the order the source writes it.
\<close>

type_synonym food_table = "(string \<times> (string \<times> int) list) list"

record FoodDatabase =
  low_cal :: food_table
  high_cal :: food_table

definition FoodDatabase_init :: FoodDatabase where
  "FoodDatabase_init =
     \<lparr> low_cal =
         [(''protein'',
             [(''chicken breast, 100g'', 165),
              (''tofu, 100g'', 80),
              (''egg whites, 3 large'', 50)]),
          (''dairy'',
             [(''nonfat Greek yogurt, 150g'', 90),
              (''skim milk, 1 cup'', 80)]),
          (''veggies'',
             [(''spinach, 2 cups'', 20),
              (''broccoli, 1 cup'', 55)]),
          (''grain'',
             [(''brown rice, 1/2 cup cooked'', 110),
              (''quinoa, 185g'', 222)])],
       high_cal =
         [(''protein'',
             [(''peanut butter, 32g'', 188),
              (''ground beef, 100g'', 250)]),
          (''dairy'',
             [(''cheddar cheese, 1 oz'', 115),
              (''whole milk, 1 cup'', 150)]),
          (''veggies'',
             [(''sweet potato, 1 medium'', 110),
              (''avocado, 1/2'', 120)]),
          (''grain'',
             [(''white rice, 1 cup cooked'', 200),
              (''pasta, 1 cup cooked'', 220)])] \<rparr>"

subsection \<open>The table of foods\<close>

record food_row =
  group :: string
  category :: string
  food :: string
  calories :: int

text \<open>The inner loop of \<^verbatim>\<open>store_food_df\<close>: one row appended per food.\<close>

fun append_foods :: "string \<Rightarrow> string \<Rightarrow> (string \<times> int) list \<Rightarrow> food_row list \<Rightarrow> food_row list" where
  "append_foods label cat [] rows = rows"
| "append_foods label cat ((name, cals) # foods) rows =
     append_foods label cat foods
       (rows @ [\<lparr> group = label, category = cat, food = name, calories = cals \<rparr>])"

text \<open>The outer loop, over \<^verbatim>\<open>source.items()\<close>.\<close>

fun append_categories :: "string \<Rightarrow> food_table \<Rightarrow> food_row list \<Rightarrow> food_row list" where
  "append_categories label [] rows = rows"
| "append_categories label ((cat, foods) # rest) rows =
     append_categories label rest (append_foods label cat foods rows)"

text \<open>
  \<^verbatim>\<open>pd.DataFrame(rows).sort_values("calories")\<close>. The call leaves pandas'
  \<^verbatim>\<open>kind\<close> at its default, \<^verbatim>\<open>quicksort\<close>, which pandas documents as not
  stable: what the call fixes is that the result holds the same rows, in non-decreasing
  order of the column. Which of the orders with that property comes back is left to the
  library, so the operation is a relation between the frame and a result. A frame built
  from no rows has no column \<^verbatim>\<open>calories\<close>, and sorting it raises
  \<^verbatim>\<open>KeyError\<close>.
\<close>

definition sort_values_calories :: "food_row list \<Rightarrow> py_error + food_row list \<Rightarrow> bool" where
  "sort_values_calories df res =
     (case res of
        Inl e \<Rightarrow> df = [] \<and> e = KeyError
      | Inr out \<Rightarrow> df \<noteq> [] \<and> mset out = mset df \<and> sorted (map calories out))"

text \<open>
  \<^verbatim>\<open>store_food_df(self, group="low")\<close>: the argument is \<open>None\<close> when the caller
  leaves it out.
\<close>

definition store_food_df :: "FoodDatabase \<Rightarrow> string option \<Rightarrow> py_error + food_row list \<Rightarrow> bool" where
  "store_food_df self arg res =
     (let grp = (case arg of None \<Rightarrow> ''low'' | Some g \<Rightarrow> g);
          (source, label) =
             (if grp = ''low'' then (low_cal self, ''low_cal'')
              else (high_cal self, ''high_cal''));
          rows = append_categories label source []
      in sort_values_calories rows res)"

subsection \<open>Random meals\<close>

text \<open>
  The random generator is a sequence of draws, each an arbitrary natural number; a state
  of the generator is the sequence of the draws still to come.
  \<^verbatim>\<open>random.choice(seq)\<close> raises \<^verbatim>\<open>IndexError\<close> on an empty sequence and
  otherwise returns the element at an index below the length, here the next draw
  reduced modulo the length: every index can come out, and nothing else can.
\<close>

type_synonym rng = "nat \<Rightarrow> nat"

definition random_choice :: "'a list \<Rightarrow> rng \<Rightarrow> py_error + ('a \<times> rng)" where
  "random_choice seq g =
     (if seq = [] then Inl IndexError
      else Inr (seq ! (g 0 mod length seq), (\<lambda>n. g (Suc n))))"

text \<open>The loop of \<^verbatim>\<open>random_meal\<close> over the categories of the chosen table.\<close>

fun meal_loop ::
  "food_table \<Rightarrow> string list \<Rightarrow> int \<Rightarrow> rng \<Rightarrow> py_error + ((string list \<times> int) \<times> rng)" where
  "meal_loop [] meal_items total_cals g = Inr ((meal_items, total_cals), g)"
| "meal_loop ((cat, foods) # rest) meal_items total_cals g =
     (case random_choice foods g of
        Inl e \<Rightarrow> Inl e
      | Inr ((name, cals), g') \<Rightarrow>
          meal_loop rest (meal_items @ [cat @ '': '' @ name]) (total_cals + cals) g')"

definition random_meal ::
  "FoodDatabase \<Rightarrow> Person \<Rightarrow> rng \<Rightarrow> py_error + ((string list \<times> int \<times> string) \<times> rng)" where
  "random_meal self person g =
     (case (if goal_type person = ''lose'' then Inr ((low_cal self, ''low''), g)
            else if goal_type person = ''gain'' then Inr ((high_cal self, ''high''), g)
            else (case random_choice [low_cal self, high_cal self] g of
                    Inl e \<Rightarrow> Inl e
                  | Inr (source, g') \<Rightarrow> Inr ((source, ''balanced''), g'))) of
        Inl e \<Rightarrow> Inl e
      | Inr ((source, grp), g1) \<Rightarrow>
          (case meal_loop source [] 0 g1 of
             Inl e \<Rightarrow> Inl e
           | Inr ((meal_items, total_cals), g2) \<Rightarrow> Inr ((meal_items, total_cals, grp), g2)))"

section \<open>Properties of the calorie model\<close>

lemma py_max_ge_one: "1 \<le> py_max a 1"
  by (simp add: py_max_def)

lemma py_max_is_max: "py_max a b = max a b"
  by (simp add: py_max_def max_def)

lemma py_truediv_days: "py_truediv x (py_max a 1) = Inr (x / max a 1)"
proof -
  have "py_max a 1 \<noteq> 0"
    using py_max_ge_one [of a] by linarith
  then show ?thesis
    by (simp add: py_truediv_def py_max_is_max)
qed

lemma maintain_cals_factor:
  "maintain_cals w s = w * dict_get factors (lower s) 14"
  by (simp add: maintain_cals_def)

lemma factors_cases:
  "dict_get factors k 14 =
     (if k = ''low'' then 12 else if k = ''medium'' then 14 else if k = ''high'' then 16 else 14)"
  by (simp add: dict_get_def factors_def)

lemma lower_low: "lower ''low'' = ''low''"
  by (simp add: lower_def lower_char_def)

lemma lower_medium: "lower ''medium'' = ''medium''"
  by (simp add: lower_def lower_char_def)

lemma lower_high: "lower ''high'' = ''high''"
  by (simp add: lower_def lower_char_def)

lemma lower_MEDIUM: "lower ''MEDIUM'' = ''medium''"
  by (simp add: lower_def lower_char_def)

lemma lower_MeDiUM: "lower ''MeDiUM'' = ''medium''"
  by (simp add: lower_def lower_char_def)

lemma lower_char_idem: "lower_char (lower_char c) = lower_char c"
  by (simp add: lower_char_def)

lemma lower_idem: "lower (lower s) = lower s"
  by (simp add: lower_def lower_char_idem)

subsection \<open>The claims about the calorie model\<close>


text \<open>
  Claim C2. \<^verbatim>\<open>goal_type\<close> is \<open>lose\<close> exactly when the goal weight is below the
  current weight, \<open>gain\<close> exactly when it is above, and \<open>maintain\<close> exactly when the
  two are equal: the comparison is exact.
\<close>

theorem goal_type_iff:
  "(goal_type p = ''lose'') = (goal_w p < current_w p)
   \<and> (goal_type p = ''gain'') = (goal_w p > current_w p)
   \<and> (goal_type p = ''maintain'') = (goal_w p = current_w p)"
  by (auto simp: goal_type_def)

text \<open>
  Claim C3. \<^verbatim>\<open>maintain_cals w s\<close> is \<open>w\<close> times the factor found for the
  lowercased \<open>s\<close> in the table low 12, medium 14, high 16, and 14 when the key is
  absent. The result depends on \<open>s\<close> through its lowercase form only, and the values at
  weight 150 are 1800, 2100 and 2400.
\<close>

theorem maintain_cals_lookup:
  "maintain_cals w s = w * (case factors (lower s) of Some f \<Rightarrow> f | None \<Rightarrow> 14)
   \<and> factors ''low'' = Some 12 \<and> factors ''medium'' = Some 14 \<and> factors ''high'' = Some 16
   \<and> dom factors = {''low'', ''medium'', ''high''}
   \<and> maintain_cals w (lower s) = maintain_cals w s
   \<and> (lower s = lower t \<longrightarrow> maintain_cals w s = maintain_cals w t)
   \<and> maintain_cals 150 ''low'' = 1800
   \<and> maintain_cals 150 ''medium'' = 2100
   \<and> maintain_cals 150 ''high'' = 2400
   \<and> maintain_cals 150 ''MEDIUM'' = maintain_cals 150 ''medium''
   \<and> maintain_cals 150 ''MeDiUM'' = maintain_cals 150 ''medium''"
proof -
  have 1: "maintain_cals w s = w * (case factors (lower s) of Some f \<Rightarrow> f | None \<Rightarrow> 14)"
    by (simp add: maintain_cals_def dict_get_def)
  have 2: "factors ''low'' = Some 12 \<and> factors ''medium'' = Some 14 \<and> factors ''high'' = Some 16"
    by (simp add: factors_def)
  have 3: "dom factors = {''low'', ''medium'', ''high''}"
    by (auto simp: factors_def)
  have 4: "maintain_cals w (lower s) = maintain_cals w s"
    by (simp add: maintain_cals_factor lower_idem)
  have 5: "lower s = lower t \<longrightarrow> maintain_cals w s = maintain_cals w t"
    by (simp add: maintain_cals_factor)
  have 6: "maintain_cals 150 ''low'' = 1800"
    by (simp add: maintain_cals_factor lower_low factors_cases)
  have 7: "maintain_cals 150 ''medium'' = 2100"
    by (simp add: maintain_cals_factor lower_medium factors_cases)
  have 8: "maintain_cals 150 ''high'' = 2400"
    by (simp add: maintain_cals_factor lower_high factors_cases)
  have 9: "maintain_cals 150 ''MEDIUM'' = maintain_cals 150 ''medium''"
    by (simp add: maintain_cals_factor lower_MEDIUM lower_medium)
  have 10: "maintain_cals 150 ''MeDiUM'' = maintain_cals 150 ''medium''"
    by (simp add: maintain_cals_factor lower_MeDiUM lower_medium)
  from 1 2 3 4 5 6 7 8 9 10 show ?thesis by blast
qed

theorem maintain_cals_lookup_witness:
  "lower ''MEDIUM'' = lower ''medium'' \<and> maintain_cals 150 ''MEDIUM'' = maintain_cals 150 ''medium''"
  using maintain_cals_lookup [of 150 "''MEDIUM''" "''medium''"]
  by (simp add: lower_MEDIUM lower_medium)

text \<open>
  Claim C6. \<^verbatim>\<open>daily_calorie_target\<close> never raises: the number of days is at
  least 1 whatever the timeline, so the division is defined, and every profile gets a
  pair of a target and a flag.
\<close>

theorem daily_calorie_target_total:
  "1 \<le> py_max (timeline p * 7) 1
   \<and> py_truediv x (py_max (timeline p * 7) 1) \<noteq> Inl ZeroDivisionError
   \<and> daily_calorie_target p \<noteq> Inl e
   \<and> (\<exists>target unhealthy. daily_calorie_target p = Inr (target, unhealthy))"
  by (simp add: daily_calorie_target_def py_truediv_days py_max_ge_one Let_def)

text \<open>
  Claim C7. \<^verbatim>\<open>protein_grams\<close> is the current weight times 1.0 for a profile that
  wants to lose weight and times 0.8 otherwise; of two profiles with the same positive
  current weight and the same activity, the one losing weight gets strictly more protein
  than the one gaining.
\<close>

theorem protein_grams_multiplier:
  "protein_grams p = (if goal_type p = ''lose'' then current_w p * 1.0 else current_w p * 0.8)
   \<and> (goal_type p = ''lose'' \<and> goal_type q = ''gain'' \<and> current_w p = current_w q
        \<and> activity p = activity q \<and> 0 < current_w p
      \<longrightarrow> protein_grams q < protein_grams p)"
  by (simp add: protein_grams_def)

theorem protein_grams_multiplier_witness:
  "goal_type (Person_init_default 150 130 12 ''medium'') = ''lose''
   \<and> goal_type (Person_init_default 150 170 12 ''medium'') = ''gain''
   \<and> protein_grams (Person_init_default 150 130 12 ''medium'') = 150
   \<and> protein_grams (Person_init_default 150 170 12 ''medium'') = 120
   \<and> protein_grams (Person_init_default 150 170 12 ''medium'')
       < protein_grams (Person_init_default 150 130 12 ''medium'')"
  using protein_grams_multiplier [of "Person_init_default 150 130 12 ''medium''"
      "Person_init_default 150 170 12 ''medium''"]
  by (simp add: goal_type_def protein_grams_def Person_init_default_def Person_init_def)

text \<open>
  Claim C8. At a fixed positive weight, the maintenance calories grow strictly from low
  to medium to high activity.
\<close>

theorem maintain_cals_monotone:
  "0 < w \<Longrightarrow> maintain_cals w ''low'' < maintain_cals w ''medium''
     \<and> maintain_cals w ''medium'' < maintain_cals w ''high''"
  by (simp add: maintain_cals_factor lower_low lower_medium lower_high factors_cases)

theorem maintain_cals_monotone_witness:
  "(0::real) < 150 \<and> maintain_cals 150 ''low'' < maintain_cals 150 ''medium''
     \<and> maintain_cals 150 ''medium'' < maintain_cals 150 ''high''"
  using maintain_cals_monotone [of 150] by simp

text \<open>
  Claim C9. The constructor sets \<open>fiber_grams = (calorie_target / 1000) * 14\<close> and
  \<open>sat_fat = (calorie_target * 0.07) / 9\<close>. The value given for the parameter
  \<^verbatim>\<open>sat_fat\<close> changes neither the object nor the result of any operation. The
  operations read the object and assign to none of its fields, which is why they are
  functions of the record here; and a later assignment to \<open>calorie_target\<close> leaves both
  derived fields as they were.
\<close>

theorem Person_init_derived:
  "fiber_grams (Person_init cur goal weeks act hc ct sf) = (ct / 1000) * 14
   \<and> sat_fat (Person_init cur goal weeks act hc ct sf) = (ct * 0.07) / 9
   \<and> Person_init cur goal weeks act hc ct sf = Person_init cur goal weeks act hc ct sf'
   \<and> goal_type (Person_init cur goal weeks act hc ct sf)
       = goal_type (Person_init cur goal weeks act hc ct sf')
   \<and> daily_calorie_target (Person_init cur goal weeks act hc ct sf)
       = daily_calorie_target (Person_init cur goal weeks act hc ct sf')
   \<and> protein_grams (Person_init cur goal weeks act hc ct sf)
       = protein_grams (Person_init cur goal weeks act hc ct sf')
   \<and> random_meal db (Person_init cur goal weeks act hc ct sf) g
       = random_meal db (Person_init cur goal weeks act hc ct sf') g
   \<and> fiber_grams (p\<lparr>calorie_target := c\<rparr>) = fiber_grams p
   \<and> sat_fat (p\<lparr>calorie_target := c\<rparr>) = sat_fat p"
  by (simp add: Person_init_def)

section \<open>Properties of the food database\<close>

subsection \<open>The rows of a table\<close>




lemma sorted_perm_unique:
  assumes "mset out = mset E" "sorted (map f out)" "sorted (map f E)" "distinct (map f E)"
  shows "out = E"
proof -
  have m: "mset (map f out) = mset (map f E)"
    using assms(1) by (metis mset_map)
  have d: "distinct (map f out)"
    using m assms(4) by (metis mset_eq_imp_distinct_iff)
  have s: "set out = set E"
    using assms(1) by (rule mset_eq_setD)
  have i: "inj_on f (set out \<union> set E)"
    using assms(4) s by (simp add: distinct_map)
  show ?thesis
    by (rule map_sorted_distinct_set_unique [OF i assms(2) d assms(3) assms(4) s])
qed


lemma high_rows:
  "append_categories ''high_cal'' (high_cal FoodDatabase_init) [] =
     [\<lparr>group = ''high_cal'', category = ''protein'', food = ''peanut butter, 32g'', calories = 188\<rparr>,
      \<lparr>group = ''high_cal'', category = ''protein'', food = ''ground beef, 100g'', calories = 250\<rparr>,
      \<lparr>group = ''high_cal'', category = ''dairy'', food = ''cheddar cheese, 1 oz'', calories = 115\<rparr>,
      \<lparr>group = ''high_cal'', category = ''dairy'', food = ''whole milk, 1 cup'', calories = 150\<rparr>,
      \<lparr>group = ''high_cal'', category = ''veggies'', food = ''sweet potato, 1 medium'', calories = 110\<rparr>,
      \<lparr>group = ''high_cal'', category = ''veggies'', food = ''avocado, 1/2'', calories = 120\<rparr>,
      \<lparr>group = ''high_cal'', category = ''grain'', food = ''white rice, 1 cup cooked'', calories = 200\<rparr>,
      \<lparr>group = ''high_cal'', category = ''grain'', food = ''pasta, 1 cup cooked'', calories = 220\<rparr>]"
  by (simp add: FoodDatabase_init_def)


lemma store_food_df_other:
  "g \<noteq> ''low'' \<Longrightarrow> store_food_df self (Some g) res =
     sort_values_calories (append_categories ''high_cal'' (high_cal self) []) res"
  by (simp add: store_food_df_def)

lemma sort_values_calories_Inr:
  "sort_values_calories df (Inr out) = (df \<noteq> [] \<and> mset out = mset df \<and> sorted (map calories out))"
  by (simp add: sort_values_calories_def)

lemma sort_values_calories_Inl:
  "sort_values_calories df (Inl e) = (df = [] \<and> e = KeyError)"
  by (simp add: sort_values_calories_def)


subsection \<open>The claims about the table of foods\<close>




text \<open>
  Claim C10. For every argument other than the exact string \<open>low\<close>,
  \<^verbatim>\<open>store_food_df\<close> sorts the rows of the high-calorie table, labelled
  \<open>high_cal\<close>; on the catalog of the source the result is the one table below, and
  the call raises nothing. The comparison with \<open>low\<close> is exact and case-sensitive.
\<close>

theorem store_food_df_not_low:
  "g \<noteq> ''low'' \<Longrightarrow>
     store_food_df self (Some g) res =
       sort_values_calories (append_categories ''high_cal'' (high_cal self) []) res
     \<and> store_food_df FoodDatabase_init (Some g) res =
       (res = Inr
     [\<lparr>group = ''high_cal'', category = ''veggies'', food = ''sweet potato, 1 medium'', calories = 110\<rparr>,
      \<lparr>group = ''high_cal'', category = ''dairy'', food = ''cheddar cheese, 1 oz'', calories = 115\<rparr>,
      \<lparr>group = ''high_cal'', category = ''veggies'', food = ''avocado, 1/2'', calories = 120\<rparr>,
      \<lparr>group = ''high_cal'', category = ''dairy'', food = ''whole milk, 1 cup'', calories = 150\<rparr>,
      \<lparr>group = ''high_cal'', category = ''protein'', food = ''peanut butter, 32g'', calories = 188\<rparr>,
      \<lparr>group = ''high_cal'', category = ''grain'', food = ''white rice, 1 cup cooked'', calories = 200\<rparr>,
      \<lparr>group = ''high_cal'', category = ''grain'', food = ''pasta, 1 cup cooked'', calories = 220\<rparr>,
      \<lparr>group = ''high_cal'', category = ''protein'', food = ''ground beef, 100g'', calories = 250\<rparr>])"
proof -
  assume g: "g \<noteq> ''low''"
  let ?E = "[\<lparr>group = ''high_cal'', category = ''veggies'', food = ''sweet potato, 1 medium'', calories = 110\<rparr>,
      \<lparr>group = ''high_cal'', category = ''dairy'', food = ''cheddar cheese, 1 oz'', calories = 115\<rparr>,
      \<lparr>group = ''high_cal'', category = ''veggies'', food = ''avocado, 1/2'', calories = 120\<rparr>,
      \<lparr>group = ''high_cal'', category = ''dairy'', food = ''whole milk, 1 cup'', calories = 150\<rparr>,
      \<lparr>group = ''high_cal'', category = ''protein'', food = ''peanut butter, 32g'', calories = 188\<rparr>,
      \<lparr>group = ''high_cal'', category = ''grain'', food = ''white rice, 1 cup cooked'', calories = 200\<rparr>,
      \<lparr>group = ''high_cal'', category = ''grain'', food = ''pasta, 1 cup cooked'', calories = 220\<rparr>,
      \<lparr>group = ''high_cal'', category = ''protein'', food = ''ground beef, 100g'', calories = 250\<rparr>]"
  let ?R = "append_categories ''high_cal'' (high_cal FoodDatabase_init) []"
  have a: "store_food_df self (Some g) res =
       sort_values_calories (append_categories ''high_cal'' (high_cal self) []) res"
    using g by (rule store_food_df_other)
  have perm: "mset ?E = mset ?R"
    by (simp add: high_rows)
  have ne: "?R \<noteq> []"
    by (simp add: high_rows)
  have srt: "sorted (map calories ?E)"
    by simp
  have dst: "distinct (map calories ?E)"
    by simp
  have b: "sort_values_calories ?R res = (res = Inr ?E)"
  proof (cases res)
    case (Inl e)
    then show ?thesis
      using ne by (simp add: sort_values_calories_Inl)
  next
    case (Inr out)
    have "mset out = mset ?R \<and> sorted (map calories out) \<longleftrightarrow> out = ?E"
    proof
      assume h: "mset out = mset ?R \<and> sorted (map calories out)"
      then have "mset out = mset ?E"
        using perm by simp
      then show "out = ?E"
        using h srt dst by (intro sorted_perm_unique [where f = calories]) auto
    next
      assume "out = ?E"
      then show "mset out = mset ?R \<and> sorted (map calories out)"
        using perm srt by simp
    qed
    then show ?thesis
      using Inr ne by (simp add: sort_values_calories_Inr)
  qed
  show ?thesis
    using a b store_food_df_other [OF g, of FoodDatabase_init res] by simp
qed

theorem store_food_df_not_low_witness:
  "''Low'' \<noteq> ''low''
   \<and> store_food_df FoodDatabase_init (Some ''Low'') (Inr
     [\<lparr>group = ''high_cal'', category = ''veggies'', food = ''sweet potato, 1 medium'', calories = 110\<rparr>,
      \<lparr>group = ''high_cal'', category = ''dairy'', food = ''cheddar cheese, 1 oz'', calories = 115\<rparr>,
      \<lparr>group = ''high_cal'', category = ''veggies'', food = ''avocado, 1/2'', calories = 120\<rparr>,
      \<lparr>group = ''high_cal'', category = ''dairy'', food = ''whole milk, 1 cup'', calories = 150\<rparr>,
      \<lparr>group = ''high_cal'', category = ''protein'', food = ''peanut butter, 32g'', calories = 188\<rparr>,
      \<lparr>group = ''high_cal'', category = ''grain'', food = ''white rice, 1 cup cooked'', calories = 200\<rparr>,
      \<lparr>group = ''high_cal'', category = ''grain'', food = ''pasta, 1 cup cooked'', calories = 220\<rparr>,
      \<lparr>group = ''high_cal'', category = ''protein'', food = ''ground beef, 100g'', calories = 250\<rparr>])"
proof -
  have h: "''Low'' \<noteq> ''low''" by simp
  show ?thesis
    using h store_food_df_not_low [OF h, of FoodDatabase_init "Inr
     [\<lparr>group = ''high_cal'', category = ''veggies'', food = ''sweet potato, 1 medium'', calories = 110\<rparr>,
      \<lparr>group = ''high_cal'', category = ''dairy'', food = ''cheddar cheese, 1 oz'', calories = 115\<rparr>,
      \<lparr>group = ''high_cal'', category = ''veggies'', food = ''avocado, 1/2'', calories = 120\<rparr>,
      \<lparr>group = ''high_cal'', category = ''dairy'', food = ''whole milk, 1 cup'', calories = 150\<rparr>,
      \<lparr>group = ''high_cal'', category = ''protein'', food = ''peanut butter, 32g'', calories = 188\<rparr>,
      \<lparr>group = ''high_cal'', category = ''grain'', food = ''white rice, 1 cup cooked'', calories = 200\<rparr>,
      \<lparr>group = ''high_cal'', category = ''grain'', food = ''pasta, 1 cup cooked'', calories = 220\<rparr>,
      \<lparr>group = ''high_cal'', category = ''protein'', food = ''ground beef, 100g'', calories = 250\<rparr>]"]
    by blast
qed

subsection \<open>Random meals\<close>

lemma random_choice_ok:
  "seq \<noteq> [] \<Longrightarrow> \<exists>x. random_choice seq g = Inr (x, (\<lambda>n. g (Suc n))) \<and> x \<in> set seq"
  by (simp add: random_choice_def)

lemma meal_loop_ok:
  assumes "\<forall>(cat, foods) \<in> set source. foods \<noteq> []"
  shows "\<exists>picks g'.
           meal_loop source meal_items total_cals g =
             Inr ((meal_items @ map2 (\<lambda>(cat, foods) (name, cals). cat @ '': '' @ name) source picks,
                   total_cals + sum_list (map snd picks)), g')
           \<and> length picks = length source
           \<and> list_all2 (\<lambda>(cat, foods) pick. pick \<in> set foods) source picks"
  using assms
proof (induction source arbitrary: meal_items total_cals g)
  case Nil
  then show ?case by simp
next
  case (Cons entry rest)
  obtain cat foods where entry: "entry = (cat, foods)"
    by (cases entry)
  have "foods \<noteq> []"
    using Cons.prems entry by simp
  then obtain pick where pick: "random_choice foods g = Inr (pick, (\<lambda>n. g (Suc n)))" "pick \<in> set foods"
    using random_choice_ok by blast
  obtain name cals where nc: "pick = (name, cals)"
    by (cases pick)
  have rest: "\<forall>(cat, foods) \<in> set rest. foods \<noteq> []"
    using Cons.prems by simp
  obtain picks g' where ih:
    "meal_loop rest (meal_items @ [cat @ '': '' @ name]) (total_cals + cals) (\<lambda>n. g (Suc n)) =
       Inr (((meal_items @ [cat @ '': '' @ name])
               @ map2 (\<lambda>(cat, foods) (name, cals). cat @ '': '' @ name) rest picks,
             (total_cals + cals) + sum_list (map snd picks)), g')"
    "length picks = length rest"
    "list_all2 (\<lambda>(cat, foods) pick. pick \<in> set foods) rest picks"
    using Cons.IH [OF rest] by blast
  have "meal_loop (entry # rest) meal_items total_cals g =
          Inr ((meal_items @ map2 (\<lambda>(cat, foods) (name, cals). cat @ '': '' @ name)
                  (entry # rest) (pick # picks),
                total_cals + sum_list (map snd (pick # picks))), g')"
    using ih(1) pick(1) by (simp add: entry nc)
  moreover have "length (pick # picks) = length (entry # rest)"
    using ih(2) by simp
  moreover have "list_all2 (\<lambda>(cat, foods) pick. pick \<in> set foods) (entry # rest) (pick # picks)"
    using ih(3) pick(2) entry by simp
  ultimately show ?case by blast
qed

lemma picks_calories:
  assumes "list_all2 (\<lambda>(cat, foods) pick. pick \<in> set foods) source picks"
    and "\<forall>(cat, foods) \<in> set source. \<forall>(name, cals) \<in> set foods. 0 < cals"
  shows "int (length picks) \<le> sum_list (map snd picks)"
  using assms
proof (induction rule: list_all2_induct)
  case Nil
  then show ?case by simp
next
  case (Cons entry source pick picks)
  have "0 < snd pick"
    using Cons.hyps(1) Cons.prems by (cases entry; cases pick) auto
  moreover have "int (length picks) \<le> sum_list (map snd picks)"
    using Cons.IH Cons.prems by simp
  ultimately show ?case by simp
qed

lemma low_cal_nonempty: "\<forall>(cat, foods) \<in> set (low_cal FoodDatabase_init). foods \<noteq> []"
  by (simp add: FoodDatabase_init_def)

lemma high_cal_nonempty: "\<forall>(cat, foods) \<in> set (high_cal FoodDatabase_init). foods \<noteq> []"
  by (simp add: FoodDatabase_init_def)

lemma low_cal_positive:
  "\<forall>(cat, foods) \<in> set (low_cal FoodDatabase_init). \<forall>(name, cals) \<in> set foods. 0 < cals"
  by (simp add: FoodDatabase_init_def)

lemma high_cal_positive:
  "\<forall>(cat, foods) \<in> set (high_cal FoodDatabase_init). \<forall>(name, cals) \<in> set foods. 0 < cals"
  by (simp add: FoodDatabase_init_def)

lemma low_cal_categories:
  "map fst (low_cal FoodDatabase_init) = [''protein'', ''dairy'', ''veggies'', ''grain'']"
  by (simp add: FoodDatabase_init_def)

lemma high_cal_categories:
  "map fst (high_cal FoodDatabase_init) = [''protein'', ''dairy'', ''veggies'', ''grain'']"
  by (simp add: FoodDatabase_init_def)

text \<open>A meal from one table of the catalog, whatever the draws.\<close>

lemma meal_from_table:
  assumes ne: "\<forall>(cat, foods) \<in> set source. foods \<noteq> []"
    and pos: "\<forall>(cat, foods) \<in> set source. \<forall>(name, cals) \<in> set foods. 0 < cals"
    and cats: "map fst source = [''protein'', ''dairy'', ''veggies'', ''grain'']"
  shows "\<exists>meal_items total_cals g' picks.
           meal_loop source [] 0 g = Inr ((meal_items, total_cals), g')
           \<and> length picks = 4 \<and> length meal_items = 4
           \<and> list_all2 (\<lambda>(cat, foods) pick. pick \<in> set foods) source picks
           \<and> meal_items = map2 (\<lambda>(cat, foods) (name, cals). cat @ '': '' @ name) source picks
           \<and> total_cals = sum_list (map snd picks)
           \<and> 0 < total_cals"
proof -
  have len: "length source = 4"
  proof -
    have "length (map fst source) = 4"
      by (simp add: cats)
    then show ?thesis by simp
  qed
  obtain picks g' where r:
    "meal_loop source [] 0 g =
       Inr (([] @ map2 (\<lambda>(cat, foods) (name, cals). cat @ '': '' @ name) source picks,
             0 + sum_list (map snd picks)), g')"
    "length picks = length source"
    "list_all2 (\<lambda>(cat, foods) pick. pick \<in> set foods) source picks"
    using meal_loop_ok [OF ne, of "[]" 0 g] by blast
  have "int (length picks) \<le> sum_list (map snd picks)"
    using picks_calories [OF r(3) pos] .
  then have p: "0 < sum_list (map snd picks)"
    using r(2) len by simp
  let ?items = "map2 (\<lambda>(cat, foods) (name, cals). cat @ '': '' @ name) source picks"
  have a: "meal_loop source [] 0 g = Inr ((?items, sum_list (map snd picks)), g')"
    using r(1) by simp
  have b: "length picks = 4" "length ?items = 4"
    using r(2) len by simp_all
  show ?thesis
    using a b r(3) p by blast
qed

lemma random_meal_lose:
  "goal_type person = ''lose'' \<Longrightarrow>
     random_meal self person g =
       (case meal_loop (low_cal self) [] 0 g of
          Inl e \<Rightarrow> Inl e
        | Inr ((meal_items, total_cals), g2) \<Rightarrow> Inr ((meal_items, total_cals, ''low''), g2))"
  by (simp add: random_meal_def)

lemma random_meal_gain:
  "goal_type person = ''gain'' \<Longrightarrow>
     random_meal self person g =
       (case meal_loop (high_cal self) [] 0 g of
          Inl e \<Rightarrow> Inl e
        | Inr ((meal_items, total_cals), g2) \<Rightarrow> Inr ((meal_items, total_cals, ''high''), g2))"
  by (simp add: random_meal_def)

lemma random_meal_maintain:
  "goal_type person \<noteq> ''lose'' \<Longrightarrow> goal_type person \<noteq> ''gain'' \<Longrightarrow>
     random_meal self person g =
       (case meal_loop ([low_cal self, high_cal self] ! (g 0 mod 2)) [] 0 (\<lambda>n. g (Suc n)) of
          Inl e \<Rightarrow> Inl e
        | Inr ((meal_items, total_cals), g2) \<Rightarrow> Inr ((meal_items, total_cals, ''balanced''), g2))"
  by (simp add: random_meal_def random_choice_def numeral_2_eq_2)

text \<open>One run, with the draws 0, 1, 2, 3 and the profile of the repository's test.\<close>

lemma random_meal_example:
  "random_meal FoodDatabase_init (Person_init_default 150 140 8 ''medium'') (\<lambda>n. n) =
     Inr (([''protein: chicken breast, 100g'', ''dairy: skim milk, 1 cup'',
            ''veggies: spinach, 2 cups'', ''grain: quinoa, 185g''], 487, ''low''),
          (\<lambda>n. n + 4))"
  by (simp add: random_meal_def goal_type_def Person_init_default_def Person_init_def
      FoodDatabase_init_def random_choice_def fun_eq_iff mod_Suc)

text \<open>
  Claim C4. For every profile and every sequence of draws, \<^verbatim>\<open>random_meal\<close>
  returns a meal: the group is \<open>low\<close> and the table \<open>low_cal\<close> for a profile losing
  weight, \<open>high\<close> and \<open>high_cal\<close> for one gaining, and \<open>balanced\<close> with one of the
  two tables otherwise. The meal has one entry per category of the catalog (protein,
  dairy, veggies, grain), each of the form category, colon, space, name of a food picked
  from that category of the table; the total is the sum of the calories of the picked
  foods and is positive.
\<close>

theorem random_meal_result:
  "\<exists>meal_items total_cals grp g' source picks.
     random_meal FoodDatabase_init person g = Inr ((meal_items, total_cals, grp), g')
     \<and> (if goal_type person = ''lose'' then source = low_cal FoodDatabase_init \<and> grp = ''low''
         else if goal_type person = ''gain'' then source = high_cal FoodDatabase_init \<and> grp = ''high''
         else (source = low_cal FoodDatabase_init \<or> source = high_cal FoodDatabase_init)
              \<and> grp = ''balanced'')
     \<and> map fst source = [''protein'', ''dairy'', ''veggies'', ''grain'']
     \<and> length picks = 4 \<and> length meal_items = 4
     \<and> list_all2 (\<lambda>(cat, foods) pick. pick \<in> set foods) source picks
     \<and> meal_items = map2 (\<lambda>(cat, foods) (name, cals). cat @ '': '' @ name) source picks
     \<and> total_cals = sum_list (map snd picks)
     \<and> 0 < total_cals"
proof -
  note low = meal_from_table [OF low_cal_nonempty low_cal_positive low_cal_categories]
  note high = meal_from_table [OF high_cal_nonempty high_cal_positive high_cal_categories]
  consider (lose) "goal_type person = ''lose''"
    | (gain) "goal_type person \<noteq> ''lose''" "goal_type person = ''gain''"
    | (maintain) "goal_type person \<noteq> ''lose''" "goal_type person \<noteq> ''gain''"
    by blast
  then show ?thesis
  proof cases
    case lose
    obtain meal_items total_cals g' picks where m:
      "meal_loop (low_cal FoodDatabase_init) [] 0 g = Inr ((meal_items, total_cals), g')"
      "length picks = 4" "length meal_items = 4"
      "list_all2 (\<lambda>(cat, foods) pick. pick \<in> set foods) (low_cal FoodDatabase_init) picks"
      "meal_items = map2 (\<lambda>(cat, foods) (name, cals). cat @ '': '' @ name) (low_cal FoodDatabase_init) picks"
      "total_cals = sum_list (map snd picks)" "0 < total_cals"
      using low [of g] by blast
    have "random_meal FoodDatabase_init person g = Inr ((meal_items, total_cals, ''low''), g')"
      using m(1) by (simp add: random_meal_lose [OF lose])
    then have "random_meal FoodDatabase_init person g = Inr ((meal_items, total_cals, ''low''), g')
     \<and> (if goal_type person = ''lose'' then low_cal FoodDatabase_init = low_cal FoodDatabase_init \<and> ''low'' = ''low''
         else if goal_type person = ''gain'' then low_cal FoodDatabase_init = high_cal FoodDatabase_init \<and> ''low'' = ''high''
         else (low_cal FoodDatabase_init = low_cal FoodDatabase_init \<or> low_cal FoodDatabase_init = high_cal FoodDatabase_init)
              \<and> ''low'' = ''balanced'')
     \<and> map fst (low_cal FoodDatabase_init) = [''protein'', ''dairy'', ''veggies'', ''grain'']
     \<and> length picks = 4 \<and> length meal_items = 4
     \<and> list_all2 (\<lambda>(cat, foods) pick. pick \<in> set foods) (low_cal FoodDatabase_init) picks
     \<and> meal_items = map2 (\<lambda>(cat, foods) (name, cals). cat @ '': '' @ name) (low_cal FoodDatabase_init) picks
     \<and> total_cals = sum_list (map snd picks)
     \<and> 0 < total_cals"
      using lose m(2-7) low_cal_categories by (simp only: if_True simp_thms)
    then show ?thesis
      by - (rule exI)+
  next
    case gain
    obtain meal_items total_cals g' picks where m:
      "meal_loop (high_cal FoodDatabase_init) [] 0 g = Inr ((meal_items, total_cals), g')"
      "length picks = 4" "length meal_items = 4"
      "list_all2 (\<lambda>(cat, foods) pick. pick \<in> set foods) (high_cal FoodDatabase_init) picks"
      "meal_items = map2 (\<lambda>(cat, foods) (name, cals). cat @ '': '' @ name) (high_cal FoodDatabase_init) picks"
      "total_cals = sum_list (map snd picks)" "0 < total_cals"
      using high [of g] by blast
    have "random_meal FoodDatabase_init person g = Inr ((meal_items, total_cals, ''high''), g')"
      using m(1) by (simp add: random_meal_gain [OF gain(2)])
    then have "random_meal FoodDatabase_init person g = Inr ((meal_items, total_cals, ''high''), g')
     \<and> (if goal_type person = ''lose'' then high_cal FoodDatabase_init = low_cal FoodDatabase_init \<and> ''high'' = ''low''
         else if goal_type person = ''gain'' then high_cal FoodDatabase_init = high_cal FoodDatabase_init \<and> ''high'' = ''high''
         else (high_cal FoodDatabase_init = low_cal FoodDatabase_init \<or> high_cal FoodDatabase_init = high_cal FoodDatabase_init)
              \<and> ''high'' = ''balanced'')
     \<and> map fst (high_cal FoodDatabase_init) = [''protein'', ''dairy'', ''veggies'', ''grain'']
     \<and> length picks = 4 \<and> length meal_items = 4
     \<and> list_all2 (\<lambda>(cat, foods) pick. pick \<in> set foods) (high_cal FoodDatabase_init) picks
     \<and> meal_items = map2 (\<lambda>(cat, foods) (name, cals). cat @ '': '' @ name) (high_cal FoodDatabase_init) picks
     \<and> total_cals = sum_list (map snd picks)
     \<and> 0 < total_cals"
      using gain m(2-7) high_cal_categories by (simp only: if_True if_False simp_thms)
    then show ?thesis
      by - (rule exI)+
  next
    case maintain
    let ?src = "[low_cal FoodDatabase_init, high_cal FoodDatabase_init] ! (g 0 mod 2)"
    have src: "?src = low_cal FoodDatabase_init \<or> ?src = high_cal FoodDatabase_init"
    proof -
      have "g 0 mod 2 = 0 \<or> g 0 mod 2 = 1" by arith
      then show ?thesis by auto
    qed
    then have cats: "map fst ?src = [''protein'', ''dairy'', ''veggies'', ''grain'']"
      using low_cal_categories high_cal_categories by metis
    obtain meal_items total_cals g' picks where m:
      "meal_loop ?src [] 0 (\<lambda>n. g (Suc n)) = Inr ((meal_items, total_cals), g')"
      "length picks = 4" "length meal_items = 4"
      "list_all2 (\<lambda>(cat, foods) pick. pick \<in> set foods) ?src picks"
      "meal_items = map2 (\<lambda>(cat, foods) (name, cals). cat @ '': '' @ name) ?src picks"
      "total_cals = sum_list (map snd picks)" "0 < total_cals"
    proof -
      have "\<exists>meal_items total_cals g' picks.
           meal_loop ?src [] 0 (\<lambda>n. g (Suc n)) = Inr ((meal_items, total_cals), g')
           \<and> length picks = 4 \<and> length meal_items = 4
           \<and> list_all2 (\<lambda>(cat, foods) pick. pick \<in> set foods) ?src picks
           \<and> meal_items = map2 (\<lambda>(cat, foods) (name, cals). cat @ '': '' @ name) ?src picks
           \<and> total_cals = sum_list (map snd picks)
           \<and> 0 < total_cals"
      proof (rule disjE [OF src])
        assume e: "?src = low_cal FoodDatabase_init"
        show ?thesis unfolding e by (rule low)
      next
        assume e: "?src = high_cal FoodDatabase_init"
        show ?thesis unfolding e by (rule high)
      qed
      then show ?thesis using that by blast
    qed
    have "random_meal FoodDatabase_init person g = Inr ((meal_items, total_cals, ''balanced''), g')"
      using m(1) by (simp add: random_meal_maintain [OF maintain])
    then have "random_meal FoodDatabase_init person g = Inr ((meal_items, total_cals, ''balanced''), g')
     \<and> (if goal_type person = ''lose'' then ?src = low_cal FoodDatabase_init \<and> ''balanced'' = ''low''
         else if goal_type person = ''gain'' then ?src = high_cal FoodDatabase_init \<and> ''balanced'' = ''high''
         else (?src = low_cal FoodDatabase_init \<or> ?src = high_cal FoodDatabase_init)
              \<and> ''balanced'' = ''balanced'')
     \<and> map fst ?src = [''protein'', ''dairy'', ''veggies'', ''grain'']
     \<and> length picks = 4 \<and> length meal_items = 4
     \<and> list_all2 (\<lambda>(cat, foods) pick. pick \<in> set foods) ?src picks
     \<and> meal_items = map2 (\<lambda>(cat, foods) (name, cals). cat @ '': '' @ name) ?src picks
     \<and> total_cals = sum_list (map snd picks)
     \<and> 0 < total_cals"
      using maintain m(2-7) cats src by (simp only: if_False simp_thms)
    then show ?thesis
      by - (rule exI)+
  qed
qed

end
